theory Spec2Isabelle
  imports Complex_Main
begin

section \<open>JavaScript values used by the middlewares\<close>

text \<open>
  \<open>process.env\<close> maps variable names to strings; a variable that is not set reads as
  \<open>undefined\<close>, which is \<open>None\<close> here.
\<close>

type_synonym env = "string \<rightharpoonup> string"

text \<open>
  \<open>String.prototype.split\<close> with a one-character separator: the pieces between the
  separators, empty pieces kept, so the empty string splits into one empty piece.
\<close>

fun split :: "char \<Rightarrow> string \<Rightarrow> string list" where
  "split sep [] = [ [] ]"
| "split sep (c # cs) =
     (if c = sep then [] # split sep cs
      else (case split sep cs of
              [] \<Rightarrow> [ [c] ]
            | w # ws \<Rightarrow> (c # w) # ws))"

text \<open>\<open>Array.prototype.includes\<close> on an array of strings.\<close>

definition includes_arr :: "string list \<Rightarrow> string \<Rightarrow> bool" where
  "includes_arr xs x = (x \<in> set xs)"

text \<open>
  A JavaScript number: a finite value, \<open>NaN\<close> or one of the infinities. It is falsy when
  it is zero or \<open>NaN\<close>; \<open>Number.isInteger\<close> holds for the finite values without a
  fraction.
\<close>

datatype number = Finite real | NaN | PosInfinity | NegInfinity

definition truthy :: "number \<Rightarrow> bool" where
  "truthy n = (case n of Finite x \<Rightarrow> x \<noteq> 0 | NaN \<Rightarrow> False | _ \<Rightarrow> True)"

definition isInteger :: "number \<Rightarrow> bool" where
  "isInteger n = (case n of Finite x \<Rightarrow> of_int \<lfloor>x\<rfloor> = x | _ \<Rightarrow> False)"

text \<open>
  An \<open>Error\<close> object as the handlers read it (interface \<open>ErrorWithStatus\<close>): the
  message, the optional stack trace and the two optional numeric status fields.
\<close>

record failure =
  message :: string
  stack :: "string option"
  status :: "number option"
  statusCode :: "number option"

text \<open>
  \<open>new Error(msg)\<close>: the message, the trace the runtime captured, and no status field.
\<close>

definition new_Error :: "string \<Rightarrow> string \<Rightarrow> failure" where
  "new_Error msg trace =
     \<lparr>message = msg, stack = Some trace, status = None, statusCode = None\<rparr>"

text \<open>Values of the fields of a JSON response object.\<close>

datatype jsval = JUndefined | JBool bool | JNum real | JStr string

type_synonym jsobject = "(string \<times> jsval) list"


definition of_optional :: "string option \<Rightarrow> jsval" where
  "of_optional v = (case v of None \<Rightarrow> JUndefined | Some s \<Rightarrow> JStr s)"

text \<open>What the process has written with \<open>console.warn\<close> and \<open>console.error\<close>.\<close>

datatype log_entry = Warn string | Error string failure

record process =
  penv :: env
  console :: "log_entry list"

text \<open>
  Both middleware modules evaluate
  \<open>const isDevelopment = process.env.NODE_ENV !== 'production'\<close> once, when they are
  loaded.
\<close>

definition isDevelopment :: "env \<Rightarrow> bool" where
  "isDevelopment e = (e ''NODE_ENV'' \<noteq> Some ''production'')"

section \<open>middlewares/corsConfig.ts\<close>

text \<open>The two ways the \<open>origin\<close> function calls its callback.\<close>

datatype decision = Allow | Deny failure

text \<open>
  \<open>process.env.ALLOWED_ORIGINS?.split(',') || []\<close>: an array is truthy, so the empty
  array is taken only when the variable is not set.
\<close>

definition allowedOrigins :: "env \<Rightarrow> string list" where
  "allowedOrigins e =
     (case e ''ALLOWED_ORIGINS'' of
        None \<Rightarrow> []
      | Some s \<Rightarrow> split CHR '','' s)"

text \<open>The bytes of the cross mark that starts both log lines.\<close>

definition cross_mark :: string where
  "cross_mark = [CHR 0xE2, CHR 0x9D, CHR 0x8C]"

text \<open>
  The \<open>origin\<close> option of \<open>corsConfig\<close>. \<open>dev\<close> is the module's \<open>isDevelopment\<close>,
  \<open>p\<close> the process when the request arrives, \<open>origin_hdr\<close> the request's Origin header
  (\<open>None\<close> when there is none) and \<open>trace\<close> the stack the runtime would capture for a
  new error. \<open>!origin\<close> holds for \<open>undefined\<close> and for the empty string.
\<close>

definition origin :: "bool \<Rightarrow> process \<Rightarrow> string option \<Rightarrow> string \<Rightarrow> process \<times> decision" where
  "origin dev p origin_hdr trace =
     (case origin_hdr of
        None \<Rightarrow> (p, Allow)
      | Some og \<Rightarrow>
          if og = [] then (p, Allow)
          else if dev then (p, Allow)
          else
            (let allowed = allowedOrigins (penv p) in
             if includes_arr allowed og then (p, Allow)
             else
               (p\<lparr>console := console p @ [Warn (cross_mark @ '' CORS blocked origin: '' @ og)]\<rparr>,
                Deny (new_Error ''Not allowed by CORS'' trace))))"

text \<open>The options \<open>cors\<close> applies to a request whose origin was allowed.\<close>

record cors_options =
  credentials :: bool
  methods :: "string list"
  allowedHeaders :: "string list"

definition corsConfig ::
  "bool \<Rightarrow> process \<Rightarrow> string option \<Rightarrow> string \<Rightarrow> process \<times> (failure + cors_options)" where
  "corsConfig dev p origin_hdr trace =
     (case origin dev p origin_hdr trace of
        (p', Deny err) \<Rightarrow> (p', Inl err)
      | (p', Allow) \<Rightarrow>
          (p', Inr \<lparr>credentials = True,
                    methods = [''GET'', ''POST'', ''PUT'', ''DELETE'', ''PATCH'', ''OPTIONS''],
                    allowedHeaders = [''Content-Type'', ''Authorization'']\<rparr>))"

section \<open>The response object of Express 5\<close>

text \<open>What a handler has sent: the status code and the JSON object of the body.\<close>

record response =
  res_status :: int
  res_json :: jsobject

text \<open>
  \<open>res.status(code)\<close> refuses a code that is not an integer with a \<open>TypeError\<close> and an
  integer outside 100 to 999 with a \<open>RangeError\<close>; otherwise the code becomes the
  status code of the response.
\<close>

datatype thrown = TypeError number | RangeError number

definition express_status :: "number \<Rightarrow> thrown + int" where
  "express_status code =
     (case code of
        Finite x \<Rightarrow>
          if \<not> isInteger code then Inl (TypeError code)
          else if x < 100 \<or> 999 < x then Inl (RangeError code)
          else Inr \<lfloor>x\<rfloor>
      | _ \<Rightarrow> Inl (TypeError code))"

text \<open>\<open>JSON.stringify\<close> leaves out the properties whose value is \<open>undefined\<close>.\<close>

definition JSON_stringify :: "jsobject \<Rightarrow> jsobject" where
  "JSON_stringify obj = filter (\<lambda>(k, v). v \<noteq> JUndefined) obj"

text \<open>
  The status codes whose response carries no body: \<open>res.send\<close> empties the body for
  204, 205 and 304, and Node writes none for the informational codes.
\<close>

definition no_body_status :: "int \<Rightarrow> bool" where
  "no_body_status c = (c = 204 \<or> c = 205 \<or> c = 304 \<or> (100 \<le> c \<and> c \<le> 199))"

text \<open>
  What the client receives after \<open>res.json(obj)\<close> on a response with status code \<open>c\<close>:
  the status code and, unless the code allows none, the body.
\<close>

record reply =
  reply_status :: int
  reply_body :: "jsobject option"

definition express_json :: "int \<Rightarrow> jsobject \<Rightarrow> reply" where
  "express_json c obj =
     \<lparr>reply_status = c,
      reply_body = (if no_body_status c then None else Some (JSON_stringify obj))\<rparr>"

section \<open>middlewares/errorHandler.ts\<close>

text \<open>\<open>a || b\<close> where \<open>a\<close> is an optional number: \<open>a\<close> when it is there and truthy.\<close>

definition or_else :: "number option \<Rightarrow> number \<Rightarrow> number" where
  "or_else a b = (case a of None \<Rightarrow> b | Some n \<Rightarrow> if truthy n then n else b)"

text \<open>\<open>err.status || err.statusCode || 500\<close>\<close>

definition resolve_status :: "failure \<Rightarrow> number" where
  "resolve_status err = or_else (status err) (or_else (statusCode err) (Finite 500))"

text \<open>
  The handler logs the failure, sets the status code and sends the JSON object. It does
  not read the request, and \<open>res\<close> is a response on which nothing has been sent, as it
  is for every failure this application raises. When \<open>res.status\<close> throws, the handler
  has sent nothing and the exception leaves it.
\<close>

definition errorHandler :: "bool \<Rightarrow> process \<Rightarrow> failure \<Rightarrow> process \<times> (thrown + reply)" where
  "errorHandler dev p err =
     (let p' = p\<lparr>console := console p @ [Error (cross_mark @ '' Error:'') err]\<rparr>;
          code = resolve_status err
      in case express_status code of
           Inl ex \<Rightarrow> (p', Inl ex)
         | Inr c \<Rightarrow>
             (p', Inr (express_json c
                ([(''success'', JBool False),
                  (''error'', JStr (if dev then message err else ''Internal server error''))]
                 @ (if dev then [(''stack'', of_optional (stack err))] else [])))))"

section \<open>utils/serverStartup.ts\<close>

datatype ip_family = IPv4 | IPv6

text \<open>The fields of \<open>os.NetworkInterfaceInfo\<close> that \<open>getNetworkAddress\<close> reads.\<close>

record net_info =
  address :: string
  family :: ip_family
  internal :: bool

text \<open>
  The object \<open>os.networkInterfaces()\<close> returns: its entries in the order
  \<open>Object.keys\<close> enumerates them. The declared type lets an entry hold \<open>undefined\<close>.
\<close>

type_synonym interfaces = "(string \<times> net_info list option) list"

definition Object_keys :: "interfaces \<Rightarrow> string list" where
  "Object_keys ifs = map fst ifs"

text \<open>\<open>interfaces[name] || []\<close>\<close>

definition nets_of :: "interfaces \<Rightarrow> string \<Rightarrow> net_info list" where
  "nets_of ifs name =
     (case map_of ifs name of
        Some (Some nets) \<Rightarrow> nets
      | _ \<Rightarrow> [])"

text \<open>The inner loop: \<open>Some a\<close> when it returns \<open>a\<close>, \<open>None\<close> when it runs to its end.\<close>

fun scan_nets :: "net_info list \<Rightarrow> string option" where
  "scan_nets [] = None"
| "scan_nets (net # rest) =
     (if family net = IPv4 \<and> \<not> internal net then Some (address net)
      else scan_nets rest)"

text \<open>The outer loop over the interface names.\<close>

fun scan_names :: "interfaces \<Rightarrow> string list \<Rightarrow> string option" where
  "scan_names ifs [] = None"
| "scan_names ifs (name # rest) =
     (case scan_nets (nets_of ifs name) of
        Some a \<Rightarrow> Some a
      | None \<Rightarrow> scan_names ifs rest)"

definition getNetworkAddress :: "interfaces \<Rightarrow> string" where
  "getNetworkAddress ifs =
     (case scan_names ifs (Object_keys ifs) of
        Some a \<Rightarrow> a
      | None \<Rightarrow> ''localhost'')"

text \<open>
  \<open>networkUrl\<close> of \<open>displayServerInfo\<close>; \<open>port\<close> is the port as the template literal
  prints it.
\<close>

definition networkUrl :: "interfaces \<Rightarrow> string \<Rightarrow> string" where
  "networkUrl ifs port = ''http://'' @ getNetworkAddress ifs @ '':'' @ port"

text \<open>
  The addresses in enumeration order, and the first of them that is IPv4 and not
  internal: what the nested loops are meant to find.
\<close>

definition all_nets :: "interfaces \<Rightarrow> net_info list" where
  "all_nets ifs = concat (map (\<lambda>(name, v). case v of None \<Rightarrow> [] | Some nets \<Rightarrow> nets) ifs)"

definition first_external_ipv4 :: "interfaces \<Rightarrow> net_info option" where
  "first_external_ipv4 ifs = find (\<lambda>net. family net = IPv4 \<and> \<not> internal net) (all_nets ifs)"

section \<open>The built-in \<open>Date\<close>\<close>

text \<open>
  A valid \<open>Date\<close> holds its time value: the milliseconds since the epoch, an integer of
  magnitude at most \<open>8.64e15\<close>. \<open>new Date()\<close> always is valid. The day and year
  arithmetic is the one the language standard gives for time values.
\<close>

definition msPerDay :: int where
  "msPerDay = 86400000"


definition Day :: "int \<Rightarrow> int" where
  "Day t = t div msPerDay"


definition DayFromYear :: "int \<Rightarrow> int" where
  "DayFromYear y =
     365 * (y - 1970) + (y - 1969) div 4 - (y - 1901) div 100 + (y - 1601) div 400"

definition isLeapYear :: "int \<Rightarrow> bool" where
  "isLeapYear y = (y mod 4 = 0 \<and> (y mod 100 \<noteq> 0 \<or> y mod 400 = 0))"

text \<open>
  The year of a day: the largest \<open>y\<close> with \<open>DayFromYear y \<le> d\<close>, computed from an
  estimate that is off by at most one year.
\<close>

definition YearFromDay :: "int \<Rightarrow> int" where
  "YearFromDay d =
     (let y = 1970 + (400 * d) div 146097 in
      if d < DayFromYear y then y - 1
      else if DayFromYear (y + 1) \<le> d then y + 1
      else y)"

definition YearFromTime :: "int \<Rightarrow> int" where
  "YearFromTime t = YearFromDay (Day t)"

definition DayWithinYear :: "int \<Rightarrow> int" where
  "DayWithinYear t = Day t - DayFromYear (YearFromTime t)"

text \<open>The day of the year on which month \<open>m\<close> (from 0) starts; \<open>l\<close> is 1 in a leap year.\<close>

definition month_start :: "int \<Rightarrow> int \<Rightarrow> int" where
  "month_start l m =
     (if m = 0 then 0 else if m = 1 then 31 else if m = 2 then 59 + l
      else if m = 3 then 90 + l else if m = 4 then 120 + l else if m = 5 then 151 + l
      else if m = 6 then 181 + l else if m = 7 then 212 + l else if m = 8 then 243 + l
      else if m = 9 then 273 + l else if m = 10 then 304 + l else if m = 11 then 334 + l
      else 365 + l)"

definition leap_days :: "int \<Rightarrow> int" where
  "leap_days y = (if isLeapYear y then 1 else 0)"

definition month_of_day :: "int \<Rightarrow> int \<Rightarrow> int" where
  "month_of_day l d =
     (if d < 31 then 0 else if d < 59 + l then 1 else if d < 90 + l then 2
      else if d < 120 + l then 3 else if d < 151 + l then 4 else if d < 181 + l then 5
      else if d < 212 + l then 6 else if d < 243 + l then 7 else if d < 273 + l then 8
      else if d < 304 + l then 9 else if d < 334 + l then 10 else 11)"

definition MonthFromTime :: "int \<Rightarrow> int" where
  "MonthFromTime t = month_of_day (leap_days (YearFromTime t)) (DayWithinYear t)"

definition DateFromTime :: "int \<Rightarrow> int" where
  "DateFromTime t =
     DayWithinYear t - month_start (leap_days (YearFromTime t)) (MonthFromTime t) + 1"

definition HourFromTime :: "int \<Rightarrow> int" where
  "HourFromTime t = (t div 3600000) mod 24"

definition MinFromTime :: "int \<Rightarrow> int" where
  "MinFromTime t = (t div 60000) mod 60"

definition SecFromTime :: "int \<Rightarrow> int" where
  "SecFromTime t = (t div 1000) mod 60"

definition msFromTime :: "int \<Rightarrow> int" where
  "msFromTime t = t mod 1000"

text \<open>A number in decimal, in exactly \<open>n\<close> digits.\<close>

definition digit_char :: "nat \<Rightarrow> char" where
  "digit_char d = char_of (48 + d)"

fun digits :: "nat \<Rightarrow> nat \<Rightarrow> string" where
  "digits 0 k = []"
| "digits (Suc n) k = digits n (k div 10) @ [digit_char (k mod 10)]"

text \<open>
  The year of the date-time string format: four digits for the years 0 to 9999, a sign
  and six digits for the others.
\<close>

definition year_string :: "int \<Rightarrow> string" where
  "year_string y =
     (if 0 \<le> y \<and> y \<le> 9999 then digits 4 (nat y)
      else if 0 \<le> y then CHR ''+'' # digits 6 (nat y)
      else CHR ''-'' # digits 6 (nat (- y)))"

text \<open>\<open>Date.prototype.toISOString\<close> of a valid date.\<close>

definition toISOString :: "int \<Rightarrow> string" where
  "toISOString t =
     year_string (YearFromTime t) @ ''-'' @ digits 2 (nat (MonthFromTime t + 1)) @ ''-''
     @ digits 2 (nat (DateFromTime t)) @ ''T'' @ digits 2 (nat (HourFromTime t)) @ '':''
     @ digits 2 (nat (MinFromTime t)) @ '':'' @ digits 2 (nat (SecFromTime t)) @ ''.''
     @ digits 3 (nat (msFromTime t)) @ ''Z''"








section \<open>routes/health.ts\<close>

text \<open>
  The handler of \<open>GET /health\<close> on the router mounted at \<open>/api\<close>. \<open>now\<close> is the time
  value of \<open>new Date()\<close> and \<open>uptime\<close> what \<open>process.uptime()\<close> returns, in seconds.
\<close>

definition health :: "int \<Rightarrow> real \<Rightarrow> response" where
  "health now uptime =
     \<lparr>res_status = 200,
      res_json =
        [(''status'', JStr ''ok''),
         (''timestamp'', JStr (toISOString now)),
         (''uptime'', JNum uptime)]\<rparr>"

section \<open>Properties of the origin check\<close>

text \<open>
  C1, as stated: with no Origin header the request is allowed; in development every
  request is allowed; in production a request with an Origin header is allowed exactly
  when the header's value is in the allowed origins. The last part fails for a header
  that is present and empty: \<open>!origin\<close> holds for the empty string, so the request is
  allowed in production although the empty string is not among the allowed origins.
\<close>

theorem origin_empty_header_counterexample:
  "snd (origin False \<lparr>penv = [''ALLOWED_ORIGINS'' \<mapsto> ''https://a.example''], console = []\<rparr>
          (Some '''') ''trace'') = Allow
   \<and> '''' \<notin> set (allowedOrigins [''ALLOWED_ORIGINS'' \<mapsto> ''https://a.example''])"
  by (simp add: origin_def allowedOrigins_def)

text \<open>
  C1, amended: the rules in order. A request whose Origin header is missing or empty is
  allowed in both modes; in development every request is allowed; in production a
  request with a non-empty Origin header is allowed if and only if that value is one of
  the allowed origins read from the environment, and is otherwise denied with the error
  \<open>Not allowed by CORS\<close>.
\<close>

theorem origin_rules:
  "(og = None \<or> og = Some '''' \<longrightarrow> snd (origin dev p og tr) = Allow)
   \<and> (dev \<longrightarrow> snd (origin dev p og tr) = Allow)
   \<and> (\<not> dev \<and> og = Some s \<and> s \<noteq> '''' \<longrightarrow>
        (snd (origin dev p og tr) = Allow \<longleftrightarrow> s \<in> set (allowedOrigins (penv p)))
        \<and> (s \<notin> set (allowedOrigins (penv p)) \<longrightarrow>
             snd (origin dev p og tr) = Deny (new_Error ''Not allowed by CORS'' tr)))"
  by (auto simp: origin_def includes_arr_def Let_def split: option.splits)

theorem origin_rules_witness:
  "snd (origin False \<lparr>penv = [''ALLOWED_ORIGINS'' \<mapsto> ''https://a.example''], console = []\<rparr>
          None ''trace'') = Allow
   \<and> snd (origin True \<lparr>penv = [''ALLOWED_ORIGINS'' \<mapsto> ''https://a.example''], console = []\<rparr>
          (Some ''https://b.example'') ''trace'') = Allow
   \<and> snd (origin False \<lparr>penv = [''ALLOWED_ORIGINS'' \<mapsto> ''https://a.example''], console = []\<rparr>
          (Some ''https://a.example'') ''trace'') = Allow
   \<and> snd (origin False \<lparr>penv = [''ALLOWED_ORIGINS'' \<mapsto> ''https://a.example''], console = []\<rparr>
          (Some ''https://b.example'') ''trace'') = Deny (new_Error ''Not allowed by CORS'' ''trace'')"
  using
    origin_rules [where og = None and dev = False and tr = "''trace''"
      and p = "\<lparr>penv = [''ALLOWED_ORIGINS'' \<mapsto> ''https://a.example''], console = []\<rparr>"]
    origin_rules [where og = "Some ''https://b.example''" and dev = True and tr = "''trace''"
      and p = "\<lparr>penv = [''ALLOWED_ORIGINS'' \<mapsto> ''https://a.example''], console = []\<rparr>"]
    origin_rules [where og = "Some ''https://a.example''" and s = "''https://a.example''"
      and dev = False and tr = "''trace''"
      and p = "\<lparr>penv = [''ALLOWED_ORIGINS'' \<mapsto> ''https://a.example''], console = []\<rparr>"]
    origin_rules [where og = "Some ''https://b.example''" and s = "''https://b.example''"
      and dev = False and tr = "''trace''"
      and p = "\<lparr>penv = [''ALLOWED_ORIGINS'' \<mapsto> ''https://a.example''], console = []\<rparr>"]
  by (simp add: allowedOrigins_def)

text \<open>
  C3, as stated: the allowed origins are derived once, at startup, and never again. The
  code derives them inside the \<open>origin\<close> function, from \<open>process.env\<close> as it is when the
  request arrives. Two processes started in the same mode, whose \<open>ALLOWED_ORIGINS\<close>
  differ when the request arrives, decide the same request differently.
\<close>

theorem allowed_origins_reread_counterexample:
  "isDevelopment [''NODE_ENV'' \<mapsto> ''production'', ''ALLOWED_ORIGINS'' \<mapsto> ''https://a.example'']
     = isDevelopment [''NODE_ENV'' \<mapsto> ''production'', ''ALLOWED_ORIGINS'' \<mapsto> ''https://b.example'']
   \<and> snd (origin (isDevelopment [''NODE_ENV'' \<mapsto> ''production'', ''ALLOWED_ORIGINS'' \<mapsto> ''https://a.example''])
          \<lparr>penv = [''NODE_ENV'' \<mapsto> ''production'', ''ALLOWED_ORIGINS'' \<mapsto> ''https://a.example''], console = []\<rparr>
          (Some ''https://b.example'') ''trace'')
       = Deny (new_Error ''Not allowed by CORS'' ''trace'')
   \<and> snd (origin (isDevelopment [''NODE_ENV'' \<mapsto> ''production'', ''ALLOWED_ORIGINS'' \<mapsto> ''https://a.example''])
          \<lparr>penv = [''NODE_ENV'' \<mapsto> ''production'', ''ALLOWED_ORIGINS'' \<mapsto> ''https://b.example''], console = []\<rparr>
          (Some ''https://b.example'') ''trace'')
       = Allow"
  by (simp add: origin_def allowedOrigins_def includes_arr_def isDevelopment_def Let_def)

text \<open>
  C3, amended: the origin check reads the environment and never changes it; the allowed
  origins it consults are the ones \<open>ALLOWED_ORIGINS\<close> gives when the request arrives, so
  two requests are decided against the same allowed origins whenever the variable has
  the same value.
\<close>

theorem allowed_origins_read_only:
  "penv (fst (origin dev p og tr)) = penv p
   \<and> (penv q ''ALLOWED_ORIGINS'' = penv p ''ALLOWED_ORIGINS'' \<longrightarrow>
        snd (origin dev q og tr) = snd (origin dev p og tr))
   \<and> (\<not> dev \<and> og = Some s \<and> s \<noteq> '''' \<longrightarrow>
        (snd (origin dev p og tr) = Allow) = includes_arr (allowedOrigins (penv p)) s)"
  by (auto simp: origin_def allowedOrigins_def Let_def split: option.splits)

theorem allowed_origins_read_only_witness:
  "penv \<lparr>penv = [''NODE_ENV'' \<mapsto> ''production'', ''ALLOWED_ORIGINS'' \<mapsto> ''https://a.example''],
           console = [Warn ''earlier'']\<rparr> ''ALLOWED_ORIGINS''
     = penv \<lparr>penv = [''ALLOWED_ORIGINS'' \<mapsto> ''https://a.example''], console = []\<rparr> ''ALLOWED_ORIGINS''
   \<and> snd (origin False \<lparr>penv = [''NODE_ENV'' \<mapsto> ''production'', ''ALLOWED_ORIGINS'' \<mapsto> ''https://a.example''],
           console = [Warn ''earlier'']\<rparr> (Some ''https://a.example'') ''trace'')
       = snd (origin False \<lparr>penv = [''ALLOWED_ORIGINS'' \<mapsto> ''https://a.example''], console = []\<rparr>
           (Some ''https://a.example'') ''trace'')
   \<and> snd (origin False \<lparr>penv = [''ALLOWED_ORIGINS'' \<mapsto> ''https://a.example''], console = []\<rparr>
           (Some ''https://a.example'') ''trace'') = Allow"
  using allowed_origins_read_only [where dev = False and og = "Some ''https://a.example''"
      and s = "''https://a.example''" and tr = "''trace''"
      and q = "\<lparr>penv = [''NODE_ENV'' \<mapsto> ''production'', ''ALLOWED_ORIGINS'' \<mapsto> ''https://a.example''],
           console = [Warn ''earlier'']\<rparr>"
      and p = "\<lparr>penv = [''ALLOWED_ORIGINS'' \<mapsto> ''https://a.example''], console = []\<rparr>"]
  by (simp add: allowedOrigins_def includes_arr_def)

text \<open>
  C6: for every request whose origin is allowed, the options applied advertise
  credentials, permit exactly the methods GET, POST, PUT, DELETE, PATCH and OPTIONS, and
  permit exactly the request headers Content-Type and Authorization.
\<close>

theorem corsConfig_allowed_options:
  "snd (origin dev p og tr) = Allow \<Longrightarrow>
   (\<exists>opts. snd (corsConfig dev p og tr) = Inr opts
      \<and> credentials opts
      \<and> methods opts = [''GET'', ''POST'', ''PUT'', ''DELETE'', ''PATCH'', ''OPTIONS'']
      \<and> set (methods opts) = {''GET'', ''POST'', ''PUT'', ''DELETE'', ''PATCH'', ''OPTIONS''}
      \<and> allowedHeaders opts = [''Content-Type'', ''Authorization'']
      \<and> set (allowedHeaders opts) = {''Content-Type'', ''Authorization''})"
  by (cases "origin dev p og tr") (simp add: corsConfig_def)

theorem corsConfig_allowed_options_witness:
  "snd (origin False \<lparr>penv = [''ALLOWED_ORIGINS'' \<mapsto> ''https://a.example''], console = []\<rparr>
          (Some ''https://a.example'') ''trace'') = Allow
   \<and> (\<exists>opts. snd (corsConfig False \<lparr>penv = [''ALLOWED_ORIGINS'' \<mapsto> ''https://a.example''], console = []\<rparr>
          (Some ''https://a.example'') ''trace'') = Inr opts
      \<and> credentials opts
      \<and> set (methods opts) = {''GET'', ''POST'', ''PUT'', ''DELETE'', ''PATCH'', ''OPTIONS''}
      \<and> set (allowedHeaders opts) = {''Content-Type'', ''Authorization''})"
proof -
  have a: "snd (origin False \<lparr>penv = [''ALLOWED_ORIGINS'' \<mapsto> ''https://a.example''], console = []\<rparr>
          (Some ''https://a.example'') ''trace'') = Allow"
    by (simp add: origin_def allowedOrigins_def includes_arr_def Let_def)
  from corsConfig_allowed_options [OF a] a show ?thesis by blast
qed

section \<open>Properties of the error handler\<close>

text \<open>What \<open>res.status\<close> does with an integer, and how the status code is resolved.\<close>

lemma express_status_valid:
  "100 \<le> k \<Longrightarrow> k \<le> 999 \<Longrightarrow> express_status (Finite (of_int k)) = Inr k"
  by (simp add: express_status_def isInteger_def)





lemma errorHandler_resolved:
  "snd (errorHandler dev p err) =
     (case express_status (resolve_status err) of
        Inl ex \<Rightarrow> Inl ex
      | Inr c \<Rightarrow> Inr (express_json c
          ([(''success'', JBool False),
            (''error'', JStr (if dev then message err else ''Internal server error''))]
           @ (if dev then [(''stack'', of_optional (stack err))] else []))))"
  by (simp add: errorHandler_def Let_def split: sum.splits)










text \<open>
  C10: in production, any two failures with the same resolved status code get the same
  response, whatever their messages and stacks.
\<close>

theorem errorHandler_production_noninterference:
  "e ''NODE_ENV'' = Some ''production'' \<Longrightarrow>
   resolve_status err1 = resolve_status err2 \<longrightarrow>
     snd (errorHandler (isDevelopment e) p1 err1) = snd (errorHandler (isDevelopment e) p2 err2)"
  by (simp add: errorHandler_resolved isDevelopment_def)

theorem errorHandler_production_noninterference_witness:
  "[''NODE_ENV'' \<mapsto> ''production''] ''NODE_ENV'' = Some ''production''
   \<and> resolve_status \<lparr>message = ''disk full'', stack = Some ''at write'', status = Some (Finite 503), statusCode = None\<rparr>
       = resolve_status \<lparr>message = ''db down'', stack = None, status = None, statusCode = Some (Finite 503)\<rparr>
   \<and> snd (errorHandler (isDevelopment [''NODE_ENV'' \<mapsto> ''production''])
         \<lparr>penv = [''NODE_ENV'' \<mapsto> ''production''], console = []\<rparr>
         \<lparr>message = ''disk full'', stack = Some ''at write'', status = Some (Finite 503), statusCode = None\<rparr>)
       = snd (errorHandler (isDevelopment [''NODE_ENV'' \<mapsto> ''production''])
         \<lparr>penv = [''NODE_ENV'' \<mapsto> ''production''], console = []\<rparr>
         \<lparr>message = ''db down'', stack = None, status = None, statusCode = Some (Finite 503)\<rparr>)"
proof -
  have prod: "[''NODE_ENV'' \<mapsto> ''production''] ''NODE_ENV'' = Some ''production''" by simp
  have same: "resolve_status \<lparr>message = ''disk full'', stack = Some ''at write'', status = Some (Finite 503), statusCode = None\<rparr>
       = resolve_status \<lparr>message = ''db down'', stack = None, status = None, statusCode = Some (Finite 503)\<rparr>"
    by (simp add: resolve_status_def or_else_def truthy_def)
  from errorHandler_production_noninterference [where e = "[''NODE_ENV'' \<mapsto> ''production'']"
      and ?p1.0 = "\<lparr>penv = [''NODE_ENV'' \<mapsto> ''production''], console = []\<rparr>"
      and ?p2.0 = "\<lparr>penv = [''NODE_ENV'' \<mapsto> ''production''], console = []\<rparr>"
      and ?err1.0 = "\<lparr>message = ''disk full'', stack = Some ''at write'', status = Some (Finite 503), statusCode = None\<rparr>"
      and ?err2.0 = "\<lparr>message = ''db down'', stack = None, status = None, statusCode = Some (Finite 503)\<rparr>"]
    prod same
  show ?thesis by blast
qed




section \<open>Properties of the startup report\<close>

text \<open>The loops find the first match of the addresses they visit.\<close>

lemma scan_nets_find:
  "scan_nets nets = map_option address (find (\<lambda>net. family net = IPv4 \<and> \<not> internal net) nets)"
  by (induction nets) simp_all

lemma find_append:
  "find P (xs @ ys) = (case find P xs of Some x \<Rightarrow> Some x | None \<Rightarrow> find P ys)"
  by (induction xs) simp_all

lemma scan_names_find:
  "scan_names ifs names =
     map_option address
       (find (\<lambda>net. family net = IPv4 \<and> \<not> internal net) (concat (map (nets_of ifs) names)))"
  by (induction names) (simp_all add: scan_nets_find find_append split: option.splits)

text \<open>
  The keys of an object are distinct, so looking each key up again visits the entries
  in their order.
\<close>

lemma nets_of_entry:
  assumes "distinct (map fst ifs)" and "(k, v) \<in> set ifs"
  shows "nets_of ifs k = (case v of None \<Rightarrow> [] | Some nets \<Rightarrow> nets)"
proof -
  from assms have "map_of ifs k = Some v" by simp
  then show ?thesis by (simp add: nets_of_def split: option.splits)
qed

lemma nets_of_keys:
  assumes "distinct (map fst ifs)"
  shows "concat (map (nets_of ifs) (Object_keys ifs)) = all_nets ifs"
proof -
  have "nets_of ifs (fst kv) = (case kv of (name, v) \<Rightarrow> case v of None \<Rightarrow> [] | Some nets \<Rightarrow> nets)"
    if "kv \<in> set ifs" for kv
    using nets_of_entry [OF assms, of "fst kv" "snd kv"] that by (simp add: case_prod_beta)
  then have "map (nets_of ifs \<circ> fst) ifs
        = map (\<lambda>(name, v). case v of None \<Rightarrow> [] | Some nets \<Rightarrow> nets) ifs"
    by (intro map_cong) simp_all
  then show ?thesis
    unfolding Object_keys_def all_nets_def map_map by (rule arg_cong)
qed

text \<open>
  C7: for every enumeration of the network interfaces, \<open>getNetworkAddress\<close> returns the
  address of the first entry, in enumeration order, that is IPv4 and not internal; when
  there is none it returns \<open>localhost\<close>, and the network URL is built on it. The function
  is total: it has no failure path.
\<close>

theorem getNetworkAddress_first_external_ipv4:
  "distinct (map fst ifs) \<Longrightarrow>
   getNetworkAddress ifs =
     (case first_external_ipv4 ifs of Some net \<Rightarrow> address net | None \<Rightarrow> ''localhost'')
   \<and> (first_external_ipv4 ifs = None \<longrightarrow>
        getNetworkAddress ifs = ''localhost'' \<and> networkUrl ifs port = ''http://localhost:'' @ port)"
  by (simp add: getNetworkAddress_def networkUrl_def first_external_ipv4_def scan_names_find
      nets_of_keys split: option.splits)

theorem getNetworkAddress_first_external_ipv4_witness:
  "distinct (map fst
     [(''lo'', Some [\<lparr>address = ''127.0.0.1'', family = IPv4, internal = True\<rparr>,
                     \<lparr>address = ''::1'', family = IPv6, internal = True\<rparr>]),
      (''tun0'', None),
      (''eth0'', Some [\<lparr>address = ''fe80::1'', family = IPv6, internal = False\<rparr>,
                       \<lparr>address = ''192.168.1.20'', family = IPv4, internal = False\<rparr>]),
      (''wlan0'', Some [\<lparr>address = ''10.0.0.7'', family = IPv4, internal = False\<rparr>])])
   \<and> getNetworkAddress
     [(''lo'', Some [\<lparr>address = ''127.0.0.1'', family = IPv4, internal = True\<rparr>,
                     \<lparr>address = ''::1'', family = IPv6, internal = True\<rparr>]),
      (''tun0'', None),
      (''eth0'', Some [\<lparr>address = ''fe80::1'', family = IPv6, internal = False\<rparr>,
                       \<lparr>address = ''192.168.1.20'', family = IPv4, internal = False\<rparr>]),
      (''wlan0'', Some [\<lparr>address = ''10.0.0.7'', family = IPv4, internal = False\<rparr>])]
     = ''192.168.1.20''
   \<and> distinct (map fst
     [(''lo'', Some [\<lparr>address = ''127.0.0.1'', family = IPv4, internal = True\<rparr>])])
   \<and> first_external_ipv4
     [(''lo'', Some [\<lparr>address = ''127.0.0.1'', family = IPv4, internal = True\<rparr>])] = None
   \<and> getNetworkAddress
     [(''lo'', Some [\<lparr>address = ''127.0.0.1'', family = IPv4, internal = True\<rparr>])] = ''localhost''
   \<and> networkUrl
     [(''lo'', Some [\<lparr>address = ''127.0.0.1'', family = IPv4, internal = True\<rparr>])] ''3000''
     = ''http://localhost:3000''"
  using
    getNetworkAddress_first_external_ipv4 [where port = "''3000''" and ifs =
     "[(''lo'', Some [\<lparr>address = ''127.0.0.1'', family = IPv4, internal = True\<rparr>,
                     \<lparr>address = ''::1'', family = IPv6, internal = True\<rparr>]),
      (''tun0'', None),
      (''eth0'', Some [\<lparr>address = ''fe80::1'', family = IPv6, internal = False\<rparr>,
                       \<lparr>address = ''192.168.1.20'', family = IPv4, internal = False\<rparr>]),
      (''wlan0'', Some [\<lparr>address = ''10.0.0.7'', family = IPv4, internal = False\<rparr>])]"]
    getNetworkAddress_first_external_ipv4 [where port = "''3000''" and ifs =
     "[(''lo'', Some [\<lparr>address = ''127.0.0.1'', family = IPv4, internal = True\<rparr>])]"]
  by (simp add: first_external_ipv4_def all_nets_def)

section \<open>Properties of the health route\<close>








































text \<open>
  The status code 200 of the health route passes \<open>res.status\<close>, and its body has no
  \<open>undefined\<close> property and is sent as it is.
\<close>

lemma health_through_express:
  "express_status (Finite 200) = Inr 200
   \<and> express_json 200 (res_json (health now uptime))
       = \<lparr>reply_status = res_status (health now uptime),
          reply_body = Some (res_json (health now uptime))\<rparr>"
  using express_status_valid [of 200]
  by (simp add: express_json_def no_body_status_def JSON_stringify_def health_def)



end
